theory Spec2Isabelle
  imports Main
begin

section \<open>Strings and numbers of the host language\<close>

text \<open>
  A JavaScript string is modelled as a \<open>string\<close>, one \<open>char\<close> per code unit below 256.
  \<open>isWhiteSpace\<close> lists the code units below 256 that \<open>String.prototype.trim\<close> strips
  (WhiteSpace and LineTerminator of ECMAScript): TAB, LF, VT, FF, CR, SPACE and NBSP.
\<close>

definition isWhiteSpace :: "char \<Rightarrow> bool" where
  "isWhiteSpace c \<longleftrightarrow>
     c = CHR 0x09 \<or> c = CHR 0x0A \<or> c = CHR 0x0B \<or> c = CHR 0x0C \<or> c = CHR 0x0D \<or>
     c = CHR 0x20 \<or> c = CHR 0xA0"

definition trim :: "string \<Rightarrow> string" where
  "trim s = rev (dropWhile isWhiteSpace (rev (dropWhile isWhiteSpace s)))"

text \<open>A string is truthy in a condition exactly when it is not empty.\<close>

definition truthy :: "string \<Rightarrow> bool" where
  "truthy s \<longleftrightarrow> s \<noteq> []"

definition digit :: "nat \<Rightarrow> char" where
  "digit d = char_of (48 + d)"

text \<open>\<open>Number.prototype.toString\<close> on a non-negative integer: its decimal digits.\<close>

fun toString :: "nat \<Rightarrow> string" where
  "toString n = (if n < 10 then [digit n] else toString (n div 10) @ [digit (n mod 10)])"

declare toString.simps [simp del]

definition newline :: string where
  "newline = [CHR 0x0A]"

definition dquote :: string where
  "dquote = [CHR 0x22]"

section \<open>Data model\<close>

text \<open>
  The declarations of the module \<open>types\<close>: the enumerations \<open>Role\<close>, \<open>ContentType\<close> and
  \<open>GenerationMode\<close>, and the interfaces \<open>MediaAttachment\<close>, \<open>Message\<close> and
  \<open>ProjectContext\<close>. An optional field is an \<open>option\<close>. The inline type of \<open>metadata\<close> is
  the record \<open>Metadata\<close>, and the element type of \<open>sources\<close> the record \<open>Source\<close>. The
  field \<open>id\<close> of a message is named \<open>msg_id\<close>; the fields \<open>data\<close> and \<open>name\<close> of an
  attachment are named \<open>attachment_data\<close> and \<open>attachment_name\<close>.
\<close>

datatype Role = USER | ASSISTANT

datatype ContentType = TEXT | IMAGE | VIDEO | RESEARCH

datatype GenerationMode = COPYWRITING | VISUAL | VIDEO | RESEARCH

record MediaAttachment =
  mimeType :: string
  attachment_data :: string
  attachment_name :: "string option"

record Source =
  uri :: string
  title :: string

record Metadata =
  imageUrl :: "string option"
  videoUrl :: "string option"
  sources :: "Source list option"
  thinking :: "bool option"

record Message =
  msg_id :: string
  role :: Role
  content :: string
  type :: ContentType
  attachments :: "MediaAttachment list option"
  metadata :: "Metadata option"
  timestamp :: nat

record ProjectContext =
  brandName :: string
  industry :: string
  tone :: string

text \<open>The state \<open>file\<close> of the dashboard: \<open>{ name, data, mime }\<close>.\<close>

record UploadedFile =
  name :: string
  data :: string
  mime :: string

section \<open>The outside world\<close>

text \<open>
  A thrown value is opaque. An awaited promise is fulfilled with a value, rejected with a
  thrown value, or never settles (\<open>Pending\<close>).
\<close>

datatype exn = Thrown string

datatype 'a promise = Fulfilled 'a | is_Rejected: Rejected exn | is_Pending: Pending

text \<open>
  What the generation service answers. Of a \<open>GenerateContentResponse\<close> the code reads
  \<open>response.text\<close>, the optional chain
  \<open>response.candidates?.[0]?.groundingMetadata?.groundingChunks\<close> and the optional chain
  \<open>response.candidates?.[0]?.content?.parts\<close>; each chain is one optional field here.
  Of a chunk it reads \<open>web\<close>, of a part \<open>inlineData.data\<close>. Of a video operation it reads
  \<open>done\<close> (here \<open>op_done\<close>) and the chain
  \<open>operation.response?.generatedVideos?.[0]?.video?.uri\<close> (here \<open>videoUri\<close>).
\<close>

record Chunk =
  web :: "Source option"

record Part =
  inlineData :: "string option"

record GenerateContentResponse =
  response_text :: "string option"
  groundingChunks :: "Chunk list option"
  parts :: "Part list option"

record Operation =
  op_done :: bool
  videoUri :: "string option"

text \<open>A part of a request: \<open>{ inlineData: { mimeType, data } }\<close> or \<open>{ text }\<close>.\<close>

datatype RequestPart = InlineData string string | TextPart string

text \<open>\<open>window.aistudio\<close>, when the page has it: the settlements of its two calls.\<close>

record AiStudio =
  hasSelectedApiKey :: "bool promise"
  openSelectKey :: "unit promise"

text \<open>
  The environment of one call of a service function. \<open>createAI\<close> is what
  \<open>new GoogleGenAI(...)\<close> does (it returns or throws); \<open>generateContent\<close> and
  \<open>generateVideos\<close> answer a request (model name and parts, or the video prompt);
  \<open>getVideosOperation\<close> lists the answers of the successive polls; \<open>fetch_video\<close>,
  \<open>videoRes_blob\<close> and \<open>createObjectURL\<close> are the download of the rendered video;
  \<open>API_KEY\<close> is \<open>process.env.API_KEY\<close>.
\<close>

record Api =
  aistudio :: "AiStudio option"
  createAI :: "exn + unit"
  generateContent :: "string \<Rightarrow> RequestPart list \<Rightarrow> GenerateContentResponse promise"
  generateVideos :: "string \<Rightarrow> Operation promise"
  getVideosOperation :: "Operation promise list"
  fetch_video :: "string \<Rightarrow> unit promise"
  videoRes_blob :: "unit promise"
  createObjectURL :: string
  API_KEY :: string

section \<open>The service functions\<close>

text \<open>\<open>ensureApiKey\<close>: asks for a key when the page can and none is selected.\<close>

definition ensureApiKey :: "Api \<Rightarrow> unit promise" where
  "ensureApiKey api =
     (case aistudio api of
        None \<Rightarrow> Fulfilled ()
      | Some studio \<Rightarrow>
          (case hasSelectedApiKey studio of
             Fulfilled hasKey \<Rightarrow> if \<not> hasKey then openSelectKey studio else Fulfilled ()
           | Rejected e \<Rightarrow> Rejected e
           | Pending \<Rightarrow> Pending))"

record StrategyResult =
  strategy_text :: string

text \<open>
  \<open>generateStrategy\<close>: the attachments (\<open>atts\<close>, pairs of a MIME type and data) become inline parts, the prompt is the last part;
  an absent or empty \<open>response.text\<close> is replaced by a fixed sentence. The context
  data only enters the system instruction, which with the thinking budget is
  configuration of the request and is not part of what the environment is asked.
\<close>

definition generateStrategy ::
  "Api \<Rightarrow> string \<Rightarrow> string \<Rightarrow> (string \<times> string) list \<Rightarrow> StrategyResult promise" where
  "generateStrategy api prompt contextData atts =
     (case createAI api of
        Inl e \<Rightarrow> Rejected e
      | Inr ai \<Rightarrow>
          (let contents = map (\<lambda>(m, d). InlineData m d) atts @ [TextPart prompt]
           in case generateContent api ''gemini-3-pro-preview'' contents of
                Fulfilled response \<Rightarrow>
                  Fulfilled \<lparr>strategy_text =
                    (case response_text response of
                       Some t \<Rightarrow> if truthy t then t else ''No content generated.''
                     | None \<Rightarrow> ''No content generated.'')\<rparr>
              | Rejected e \<Rightarrow> Rejected e
              | Pending \<Rightarrow> Pending))"

text \<open>
  \<open>conductResearch\<close>: the request is one text; the result has the text of the answer (a
  fixed sentence when it is absent or empty) and the \<open>web\<close> entries of the grounding
  chunks, in order, none when the chain that leads to the chunks is absent. The fields
  \<open>text\<close> and \<open>sources\<close> of the result are named \<open>research_text\<close> and
  \<open>research_sources\<close>; the field \<open>text\<close> of the result of \<open>generateStrategy\<close> is named
  \<open>strategy_text\<close>.
\<close>

record ResearchResult =
  research_text :: string
  research_sources :: "Source list"

definition conductResearch :: "Api \<Rightarrow> string \<Rightarrow> ResearchResult promise" where
  "conductResearch api query =
     (case createAI api of
        Inl e \<Rightarrow> Rejected e
      | Inr ai \<Rightarrow>
          (case generateContent api ''gemini-3-pro-preview''
                  [TextPart (''Find the latest high-performing campaigns, trends, or competitors related to: ''
                     @ query @
                     ''. Summarize the key visual and textual elements that made them successful.'')] of
             Fulfilled response \<Rightarrow>
               Fulfilled \<lparr>research_text =
                   (case response_text response of
                      Some t \<Rightarrow> if truthy t then t else ''No research found.''
                    | None \<Rightarrow> ''No research found.''),
                 research_sources =
                   (case groundingChunks response of
                      Some chunks \<Rightarrow>
                        concat (map (\<lambda>c. case web c of Some w \<Rightarrow> [w] | None \<Rightarrow> []) chunks)
                    | None \<Rightarrow> [])\<rparr>
           | Rejected e \<Rightarrow> Rejected e
           | Pending \<Rightarrow> Pending))"

text \<open>The loop over the parts of the answer: the first part with inline data wins.\<close>

fun first_inline :: "Part list \<Rightarrow> string option" where
  "first_inline [] = None"
| "first_inline (p # ps) =
     (case inlineData p of
        Some d \<Rightarrow> Some (''data:image/png;base64,'' @ d)
      | None \<Rightarrow> first_inline ps)"

definition generateProfessionalImage :: "Api \<Rightarrow> string \<Rightarrow> string option \<Rightarrow> string option promise" where
  "generateProfessionalImage api prompt refImage =
     (case createAI api of
        Inl e \<Rightarrow> Rejected e
      | Inr ai \<Rightarrow>
          (let contents =
                 (case refImage of
                    Some r \<Rightarrow>
                      if truthy r
                      then [InlineData ''image/png'' r,
                            TextPart ''Use the attached image as a stylistic reference or composition guide. '']
                      else []
                  | None \<Rightarrow> [])
                 @ [TextPart (''Create a high-end, award-winning photography or cinematic render. Photorealistic, dramatic lighting, 4k. Prompt: '' @ prompt)]
           in case generateContent api ''gemini-3-pro-image-preview'' contents of
                Fulfilled response \<Rightarrow>
                  Fulfilled (first_inline (case parts response of Some ps \<Rightarrow> ps | None \<Rightarrow> []))
              | Rejected e \<Rightarrow> Rejected e
              | Pending \<Rightarrow> Pending))"

text \<open>
  The poll loop of \<open>generateCinematicVideo\<close>: while the operation is not done, wait and ask
  again. The answers of the service are a list; when the operation is still not done and
  no answer is left, the loop has not ended and the call never settles.
\<close>

fun poll :: "Operation \<Rightarrow> Operation promise list \<Rightarrow> Operation promise" where
  "poll operation [] = (if op_done operation then Fulfilled operation else Pending)"
| "poll operation (answer # answers) =
     (if op_done operation then Fulfilled operation
      else case answer of
             Fulfilled operation' \<Rightarrow> poll operation' answers
           | Rejected e \<Rightarrow> Rejected e
           | Pending \<Rightarrow> Pending)"

text \<open>
  The body of the \<open>try\<close> block of \<open>generateCinematicVideo\<close> (steps 3 to 5).
\<close>

definition video_try :: "Api \<Rightarrow> string \<Rightarrow> string option promise" where
  "video_try api prompt =
     (case generateVideos api (''Cinematic shot, movie quality, high production value. '' @ prompt) of
        Rejected e \<Rightarrow> Rejected e
      | Pending \<Rightarrow> Pending
      | Fulfilled operation0 \<Rightarrow>
          (case poll operation0 (getVideosOperation api) of
             Rejected e \<Rightarrow> Rejected e
           | Pending \<Rightarrow> Pending
           | Fulfilled operation \<Rightarrow>
               (case videoUri operation of
                  None \<Rightarrow> Fulfilled None
                | Some u \<Rightarrow>
                    if \<not> truthy u then Fulfilled None
                    else (case fetch_video api (u @ ''&key='' @ API_KEY api) of
                            Rejected e \<Rightarrow> Rejected e
                          | Pending \<Rightarrow> Pending
                          | Fulfilled videoRes \<Rightarrow>
                              (case videoRes_blob api of
                                 Rejected e \<Rightarrow> Rejected e
                               | Pending \<Rightarrow> Pending
                               | Fulfilled blob \<Rightarrow> Fulfilled (Some (createObjectURL api)))))))"

text \<open>
  \<open>generateCinematicVideo\<close>: \<open>ensureApiKey\<close> and \<open>createAI\<close> run before the \<open>try\<close>
  block; the \<open>catch\<close> turns whatever the block throws into \<open>null\<close>.
\<close>

definition generateCinematicVideo :: "Api \<Rightarrow> string \<Rightarrow> string option promise" where
  "generateCinematicVideo api prompt =
     (case ensureApiKey api of
        Rejected e \<Rightarrow> Rejected e
      | Pending \<Rightarrow> Pending
      | Fulfilled u \<Rightarrow>
          (case createAI api of
             Inl e \<Rightarrow> Rejected e
           | Inr ai \<Rightarrow>
               (case video_try api prompt of
                  Rejected e \<Rightarrow> Fulfilled None
                | r \<Rightarrow> r)))"

section \<open>The dashboard\<close>

text \<open>
  The clock: \<open>clock k\<close> is what the \<open>k\<close>-th call of \<open>Date.now()\<close> of the page returns
  (epoch milliseconds). Call 0 is the one that stamps \<open>INITIAL_MESSAGE\<close> when the module
  is loaded.
\<close>

type_synonym Clock = "nat \<Rightarrow> nat"

definition INITIAL_MESSAGE :: "Clock \<Rightarrow> Message" where
  "INITIAL_MESSAGE clock =
     \<lparr>msg_id = ''welcome'',
      role = ASSISTANT,
      content =
        ''# OmniCreative Studio'' @ newline @ newline @
        ''Welcome. I am your AI Creative Director. I can assist you with:'' @ newline @ newline @
        ''*   **Strategic Copywriting** (Ads, PR, Social)'' @ newline @
        ''*   **Market Research** (Competitor analysis, Trends)'' @ newline @
        ''*   **Visuals** (High-end Image Generation)'' @ newline @
        ''*   **Cinematics** (Veo Video Production)'' @ newline @ newline @
        ''What is our project focus today?'',
      type = ContentType.TEXT,
      attachments = None,
      metadata = None,
      timestamp = clock 0\<rparr>"

text \<open>A call of one of the four service functions, with its arguments.\<close>

datatype Call =
    GenerateStrategy string string "(string \<times> string) list"
  | ConductResearch string
  | GenerateProfessionalImage string "string option"
  | GenerateCinematicVideo string

text \<open>
  The state of the component: the six \<open>useState\<close> cells (\<open>context\<close> is named
  \<open>projectContext\<close>), and two counters of the model: \<open>tick\<close>, the number of calls of
  \<open>Date.now()\<close> made so far, and \<open>invoked\<close>, the service calls made so far. Every
  \<open>setMessages\<close> of the code passes an updater function, so applying the updates to the
  state in program order is what React computes. \<open>console.error\<close> and the reset of the
  file input element are not part of the state.
\<close>

record Dashboard =
  messages :: "Message list"
  input :: string
  isLoading :: bool
  mode :: GenerationMode
  "file" :: "UploadedFile option"
  projectContext :: ProjectContext
  tick :: nat
  invoked :: "Call list"

definition initial :: "Clock \<Rightarrow> Dashboard" where
  "initial clock =
     \<lparr>messages = [INITIAL_MESSAGE clock],
      input = [],
      isLoading = False,
      mode = COPYWRITING,
      file = None,
      projectContext =
        \<lparr>brandName = ''LuxNova'', industry = ''Tech / Lifestyle'',
         tone = ''Futuristic, Premium, Minimalist''\<rparr>,
      tick = 1,
      invoked = []\<rparr>"

text \<open>
  \<open>handleSubmit\<close> is an async function with one \<open>await\<close> on each path. It is modelled
  in two halves: \<open>handleSubmit_start\<close> is the code from the guard to the \<open>await\<close>, and
  \<open>handleSubmit_resume\<close> the code after it. What the first half leaves for the second is
  a \<open>Suspended\<close>: the captured \<open>input\<close>, the \<open>resultMessage\<close> under construction and the
  promise being awaited.
\<close>

datatype Awaited =
    AwaitStrategy "StrategyResult promise"
  | AwaitResearch "ResearchResult promise"
  | AwaitImage "string option promise"
  | AwaitVideo "string option promise"

record Suspended =
  s_input :: string
  s_resultMessage :: Message
  s_awaited :: Awaited

text \<open>Whether the awaited service call was rejected, and whether it never settles.\<close>

fun faulted :: "Awaited \<Rightarrow> bool" where
  "faulted (AwaitStrategy p) = is_Rejected p"
| "faulted (AwaitResearch p) = is_Rejected p"
| "faulted (AwaitImage p) = is_Rejected p"
| "faulted (AwaitVideo p) = is_Rejected p"

fun unsettled :: "Awaited \<Rightarrow> bool" where
  "unsettled (AwaitStrategy p) = is_Pending p"
| "unsettled (AwaitResearch p) = is_Pending p"
| "unsettled (AwaitImage p) = is_Pending p"
| "unsettled (AwaitVideo p) = is_Pending p"

text \<open>The guard of line 62: \<open>(!input.trim() && !file) || isLoading\<close>.\<close>

definition refused :: "Dashboard \<Rightarrow> bool" where
  "refused d \<longleftrightarrow> (\<not> truthy (trim (input d)) \<and> file d = None) \<or> isLoading d"

definition placeholder :: "nat \<Rightarrow> Message" where
  "placeholder now =
     \<lparr>msg_id = ''temp-video'',
      role = ASSISTANT,
      content = ''Producing cinematic video... This may take a minute.'',
      type = ContentType.TEXT,
      attachments = None,
      metadata = Some \<lparr>imageUrl = None, videoUrl = None, sources = None, thinking = Some True\<rparr>,
      timestamp = now\<rparr>"

text \<open>
  The constants \<open>userMsg\<close>, \<open>resultMessage\<close> and \<open>contextString\<close> of \<open>handleSubmit\<close>, computed
  from the state \<open>d\<close> the call starts in. The call reads the clock four times before the
  \<open>switch\<close>: readings \<open>tick d\<close> to \<open>tick d + 3\<close>.
\<close>

definition userMsg :: "Clock \<Rightarrow> Dashboard \<Rightarrow> Message" where
  "userMsg clock d =
     \<lparr>msg_id = toString (clock (tick d)),
      role = USER,
      content = input d @
        (case file d of
           Some f \<Rightarrow> newline @ ''[Attached: '' @ name f @ '']''
         | None \<Rightarrow> []),
      type = ContentType.TEXT,
      attachments = None,
      metadata = None,
      timestamp = clock (tick d + 1)\<rparr>"

definition resultMessage :: "Clock \<Rightarrow> Dashboard \<Rightarrow> Message" where
  "resultMessage clock d =
     \<lparr>msg_id = toString (clock (tick d + 2) + 1),
      role = ASSISTANT,
      content = [],
      type = ContentType.TEXT,
      attachments = None,
      metadata = None,
      timestamp = clock (tick d + 3)\<rparr>"

definition contextString :: "Dashboard \<Rightarrow> string" where
  "contextString d =
     ''Brand: '' @ brandName (projectContext d) @
     '', Industry: '' @ industry (projectContext d) @
     '', Tone: '' @ tone (projectContext d)"

text \<open>
  From the first statement after the guard to the \<open>await\<close> of the selected case. In
  \<open>VIDEO\<close> mode the placeholder is appended (a fifth reading of the clock) before the
  service function is called.
\<close>

definition handleSubmit_start :: "Api \<Rightarrow> Clock \<Rightarrow> Dashboard \<Rightarrow> Suspended \<times> Dashboard" where
  "handleSubmit_start api clock d =
     (let currentFile = file d;
          d1 = d\<lparr>messages := messages d @ [userMsg clock d], input := [], file := None,
                 isLoading := True\<rparr>
      in case mode d of
           COPYWRITING \<Rightarrow>
             (let atts = (case currentFile of Some f \<Rightarrow> [(mime f, data f)] | None \<Rightarrow> [])
              in (\<lparr>s_input = input d, s_resultMessage = resultMessage clock d,
                   s_awaited =
                     AwaitStrategy (generateStrategy api (input d) (contextString d) atts)\<rparr>,
                  d1\<lparr>tick := tick d + 4,
                     invoked := invoked d @
                       [GenerateStrategy (input d) (contextString d) atts]\<rparr>))
         | GenerationMode.RESEARCH \<Rightarrow>
             (\<lparr>s_input = input d, s_resultMessage = resultMessage clock d,
               s_awaited = AwaitResearch (conductResearch api (input d))\<rparr>,
              d1\<lparr>tick := tick d + 4, invoked := invoked d @ [ConductResearch (input d)]\<rparr>)
         | VISUAL \<Rightarrow>
             (\<lparr>s_input = input d, s_resultMessage = resultMessage clock d,
               s_awaited =
                 AwaitImage (generateProfessionalImage api (input d) (map_option data currentFile))\<rparr>,
              d1\<lparr>tick := tick d + 4,
                 invoked := invoked d @
                   [GenerateProfessionalImage (input d) (map_option data currentFile)]\<rparr>)
         | GenerationMode.VIDEO \<Rightarrow>
             (\<lparr>s_input = input d, s_resultMessage = resultMessage clock d,
               s_awaited = AwaitVideo (generateCinematicVideo api (input d))\<rparr>,
              d1\<lparr>messages := messages d1 @ [placeholder (clock (tick d + 4))],
                 tick := tick d + 5,
                 invoked := invoked d @ [GenerateCinematicVideo (input d)]\<rparr>))"

definition setMessages_append :: "Message \<Rightarrow> Dashboard \<Rightarrow> Dashboard" where
  "setMessages_append m d = d\<lparr>messages := messages d @ [m]\<rparr>"

text \<open>
  The rest of the \<open>try\<close> block once the awaited promise has settled: how it completes
  (normally, or by throwing what the promise was rejected with) and the state it leaves.
  On \<open>Pending\<close> the function stays suspended at the \<open>await\<close>.
\<close>

definition handleSubmit_try :: "Suspended \<Rightarrow> Dashboard \<Rightarrow> unit promise \<times> Dashboard" where
  "handleSubmit_try k d =
     (let resultMessage = s_resultMessage k in
      case s_awaited k of
        AwaitStrategy p \<Rightarrow>
          (case p of
             Fulfilled strategyRes \<Rightarrow>
               (Fulfilled (),
                setMessages_append (resultMessage\<lparr>content := strategy_text strategyRes\<rparr>) d)
           | Rejected e \<Rightarrow> (Rejected e, d)
           | Pending \<Rightarrow> (Pending, d))
      | AwaitResearch p \<Rightarrow>
          (case p of
             Fulfilled researchRes \<Rightarrow>
               (Fulfilled (),
                setMessages_append
                  (resultMessage\<lparr>content := research_text researchRes,
                     type := ContentType.RESEARCH,
                     metadata := Some \<lparr>imageUrl = None, videoUrl = None,
                       sources = Some (research_sources researchRes), thinking = None\<rparr>\<rparr>) d)
           | Rejected e \<Rightarrow> (Rejected e, d)
           | Pending \<Rightarrow> (Pending, d))
      | AwaitImage p \<Rightarrow>
          (case p of
             Fulfilled imageBase64 \<Rightarrow>
               (Fulfilled (),
                setMessages_append
                  (case imageBase64 of
                     Some b \<Rightarrow>
                       if truthy b
                       then resultMessage\<lparr>type := ContentType.IMAGE,
                              content := ''Generated concept based on: '' @ dquote @ s_input k @ dquote,
                              metadata := Some \<lparr>imageUrl = Some b, videoUrl = None,
                                sources = None, thinking = None\<rparr>\<rparr>
                       else resultMessage\<lparr>content := ''Failed to generate image. Please try again.''\<rparr>
                   | None \<Rightarrow>
                       resultMessage\<lparr>content := ''Failed to generate image. Please try again.''\<rparr>) d)
           | Rejected e \<Rightarrow> (Rejected e, d)
           | Pending \<Rightarrow> (Pending, d))
      | AwaitVideo p \<Rightarrow>
          (case p of
             Fulfilled url \<Rightarrow>
               (let d' = d\<lparr>messages := filter (\<lambda>m. msg_id m \<noteq> ''temp-video'') (messages d)\<rparr>
                in (Fulfilled (),
                    setMessages_append
                      (case url of
                         Some v \<Rightarrow>
                           if truthy v
                           then resultMessage\<lparr>type := ContentType.VIDEO,
                                  content := ''Render complete for scene: '' @ dquote @ s_input k @ dquote,
                                  metadata := Some \<lparr>imageUrl = None, videoUrl = Some v,
                                    sources = None, thinking = None\<rparr>\<rparr>
                           else resultMessage\<lparr>content := ''Video generation failed or was cancelled.''\<rparr>
                       | None \<Rightarrow>
                           resultMessage\<lparr>content := ''Video generation failed or was cancelled.''\<rparr>) d'))
           | Rejected e \<Rightarrow> (Rejected e, d)
           | Pending \<Rightarrow> (Pending, d)))"

text \<open>The message the \<open>catch\<close> block appends; it reads the clock twice.\<close>

definition errorMessage :: "Clock \<Rightarrow> nat \<Rightarrow> Message" where
  "errorMessage clock n =
     \<lparr>msg_id = toString (clock n),
      role = ASSISTANT,
      content = ''An error occurred while processing your request. Please check your API configuration.'',
      type = ContentType.TEXT,
      attachments = None,
      metadata = None,
      timestamp = clock (n + 1)\<rparr>"

text \<open>
  \<open>try\<close>, \<open>catch\<close> and \<open>finally\<close>: a normal end of the block goes to \<open>finally\<close>; a throw goes
  to the \<open>catch\<close> block, which appends the error message and ends normally, then to
  \<open>finally\<close>. The first component is how the promise of \<open>handleSubmit\<close> itself settles.
\<close>

definition handleSubmit_resume :: "Suspended \<Rightarrow> Clock \<Rightarrow> Dashboard \<Rightarrow> unit promise \<times> Dashboard" where
  "handleSubmit_resume k clock d =
     (case handleSubmit_try k d of
        (Fulfilled u, d') \<Rightarrow> (Fulfilled (), d'\<lparr>isLoading := False\<rparr>)
      | (Rejected e, d') \<Rightarrow>
          (Fulfilled (),
           (setMessages_append (errorMessage clock (tick d')) d')
             \<lparr>tick := tick d' + 2, isLoading := False\<rparr>)
      | (Pending, d') \<Rightarrow> (Pending, d'))"

text \<open>
  A whole call of \<open>handleSubmit\<close> made from a render that captured the state \<open>d\<close>, with
  nothing else happening to the state before the awaited promise settles.
\<close>

definition handleSubmit :: "Api \<Rightarrow> Clock \<Rightarrow> Dashboard \<Rightarrow> unit promise \<times> Dashboard" where
  "handleSubmit api clock d =
     (if refused d then (Fulfilled (), d)
      else (let (k, d1) = handleSubmit_start api clock d in handleSubmit_resume k clock d1))"

section \<open>Runs of the page\<close>

text \<open>
  The handlers of the component are closures of a render: \<open>handleSubmit\<close> reads \<open>input\<close>,
  \<open>file\<close>, \<open>isLoading\<close>, \<open>mode\<close> and \<open>context\<close> as the last render captured them, whatever
  has been set since. The page is therefore the state as it is now (\<open>live\<close>), the state
  the last render captured (\<open>rendered\<close>), and the calls of \<open>handleSubmit\<close> that are
  suspended at their \<open>await\<close>, oldest first.
\<close>

record Page =
  live :: Dashboard
  rendered :: Dashboard
  suspended :: "Suspended list"

text \<open>
  The state a handler of the render \<open>c\<close> works on when the state is \<open>d\<close>: the cells are
  read as \<open>c\<close> captured them; the transcript is the one of \<open>d\<close>, since every
  \<open>setMessages\<close> passes an updater function, and so are the two counters of the model.
\<close>

definition closure_view :: "Dashboard \<Rightarrow> Dashboard \<Rightarrow> Dashboard" where
  "closure_view c d = c\<lparr>messages := messages d, tick := tick d, invoked := invoked d\<rparr>"

text \<open>
  What can happen to the page: the user types (\<open>setInput\<close>), picks a mode (\<open>setMode\<close>),
  attaches or removes a file (\<open>setFile\<close>), edits the project context (\<open>setContext\<close>);
  React renders the component again (\<open>Render\<close>), and the handlers capture the state as it
  is; the send button or Enter calls \<open>handleSubmit\<close> (\<open>Submit\<close>), which runs up to its
  \<open>await\<close> in the environment of that call: its guard reads the captured cells, and when
  it passes, the cells the call sets (\<open>messages\<close>, \<open>input\<close>, \<open>file\<close>, \<open>isLoading\<close>) are set
  in the state; and the promise that the \<open>i\<close>-th suspended call awaits settles
  (\<open>Settle i\<close>), so that the call runs to its end on the state as it is then. The
  environment of a call is fixed when the call is made: it decides how the promise the
  call awaits will settle. A render may come at any time, or not at all, between two other
  events.
\<close>

datatype Event =
    SetInput string
  | SetMode GenerationMode
  | SetFile "UploadedFile option"
  | SetContext ProjectContext
  | Render
  | Submit Api
  | Settle nat

fun step :: "Clock \<Rightarrow> Page \<Rightarrow> Event \<Rightarrow> Page" where
  "step clock p (SetInput v) = p\<lparr>live := (live p)\<lparr>input := v\<rparr>\<rparr>"
| "step clock p (SetMode m) = p\<lparr>live := (live p)\<lparr>mode := m\<rparr>\<rparr>"
| "step clock p (SetFile f) = p\<lparr>live := (live p)\<lparr>file := f\<rparr>\<rparr>"
| "step clock p (SetContext c) = p\<lparr>live := (live p)\<lparr>projectContext := c\<rparr>\<rparr>"
| "step clock p Render = p\<lparr>rendered := live p\<rparr>"
| "step clock p (Submit api) =
     (let v = closure_view (rendered p) (live p) in
      if refused v then p
      else (let (k, d1) = handleSubmit_start api clock v
            in p\<lparr>live := (live p)\<lparr>messages := messages d1, input := input d1,
                                     file := file d1, isLoading := isLoading d1,
                                     tick := tick d1, invoked := invoked d1\<rparr>,
                   suspended := suspended p @ [k]\<rparr>))"
| "step clock p (Settle i) =
     (if i < length (suspended p)
      then (case handleSubmit_resume (suspended p ! i) clock (live p) of
              (Pending, d') \<Rightarrow> p\<lparr>live := d'\<rparr>
            | (r, d') \<Rightarrow>
                p\<lparr>live := d', suspended := take i (suspended p) @ drop (Suc i) (suspended p)\<rparr>)
      else p)"

definition initial_page :: "Clock \<Rightarrow> Page" where
  "initial_page clock = \<lparr>live = initial clock, rendered = initial clock, suspended = []\<rparr>"

definition run :: "Clock \<Rightarrow> Event list \<Rightarrow> Page" where
  "run clock events = foldl (step clock) (initial_page clock) events"

definition transcript :: "Clock \<Rightarrow> Event list \<Rightarrow> Message list" where
  "transcript clock events = messages (live (run clock events))"

text \<open>
  Calls do not overlap in a sequence of events, from a page on, when no call of
  \<open>handleSubmit\<close> passes its guard while another call is still suspended.
\<close>

fun calls_do_not_overlap :: "Clock \<Rightarrow> Page \<Rightarrow> Event list \<Rightarrow> bool" where
  "calls_do_not_overlap clock p [] = True"
| "calls_do_not_overlap clock p (e # es) =
     ((case e of
         Submit api \<Rightarrow> refused (closure_view (rendered p) (live p)) \<or> suspended p = []
       | _ \<Rightarrow> True) \<and>
      calls_do_not_overlap clock (step clock p e) es)"

section \<open>Invariants of the transcript\<close>

text \<open>
  A field of the metadata is populated when the message has metadata and the field is set
  in it (a list of sources may be empty).
\<close>

definition has_imageUrl :: "Message \<Rightarrow> bool" where
  "has_imageUrl m = (case metadata m of Some md \<Rightarrow> imageUrl md \<noteq> None | None \<Rightarrow> False)"

definition has_videoUrl :: "Message \<Rightarrow> bool" where
  "has_videoUrl m = (case metadata m of Some md \<Rightarrow> videoUrl md \<noteq> None | None \<Rightarrow> False)"

definition has_sources :: "Message \<Rightarrow> bool" where
  "has_sources m = (case metadata m of Some md \<Rightarrow> sources md \<noteq> None | None \<Rightarrow> False)"

text \<open>
  The invariant of the data model: at most one of the three fields is populated, each is
  populated exactly when the type of the message is the matching one, and a \<open>TEXT\<close>
  message has none of them.
\<close>

definition metadata_matches_type :: "Message \<Rightarrow> bool" where
  "metadata_matches_type m \<longleftrightarrow>
     length (filter (\<lambda>b. b) [has_imageUrl m, has_videoUrl m, has_sources m]) \<le> 1 \<and>
     (has_imageUrl m \<longleftrightarrow> type m = ContentType.IMAGE) \<and>
     (has_videoUrl m \<longleftrightarrow> type m = ContentType.VIDEO) \<and>
     (has_sources m \<longleftrightarrow> type m = ContentType.RESEARCH) \<and>
     (type m \<noteq> ContentType.TEXT \<or> \<not> (has_imageUrl m \<or> has_videoUrl m \<or> has_sources m))"

text \<open>Whether a suspended call awaits the video service.\<close>

fun awaits_video :: "Awaited \<Rightarrow> bool" where
  "awaits_video (AwaitVideo p) = True"
| "awaits_video a = False"

text \<open>
  What holds of the page along a run, for the metadata: every message of the transcript
  satisfies the invariant, and the result message of every suspended call is still a bare
  \<open>TEXT\<close> message.
\<close>

definition page_metadata_ok :: "Page \<Rightarrow> bool" where
  "page_metadata_ok p \<longleftrightarrow>
     list_all metadata_matches_type (messages (live p)) \<and>
     list_all (\<lambda>k. type (s_resultMessage k) = ContentType.TEXT \<and> metadata (s_resultMessage k) = None)
       (suspended p)"

text \<open>
  What holds of the page along a run, for the timestamps, when the clock never runs
  backwards and calls do not overlap: the transcript is ordered by timestamp and no
  timestamp is later than the next reading of the clock; at most one call is suspended,
  and every message of the transcript is stamped no later than the result message of that
  call, but for the placeholder a video call has appended, which that call removes when it
  is fulfilled.
\<close>

definition page_timestamps_ok :: "Clock \<Rightarrow> Page \<Rightarrow> bool" where
  "page_timestamps_ok clock p \<longleftrightarrow>
     sorted (map timestamp (messages (live p))) \<and>
     list_all (\<lambda>m. timestamp m \<le> clock (tick (live p))) (messages (live p)) \<and>
     length (suspended p) \<le> 1 \<and>
     list_all
       (\<lambda>k. timestamp (s_resultMessage k) \<le> clock (tick (live p)) \<and>
            list_all (\<lambda>m. timestamp m \<le> timestamp (s_resultMessage k) \<or>
                          (awaits_video (s_awaited k) \<and> msg_id m = ''temp-video''))
              (messages (live p)))
       (suspended p)"

section \<open>Example environments\<close>

text \<open>
  Clocks: one that advances by a millisecond per reading, one whose readings all fall in
  the same millisecond, and one that is set back by a second after the second reading.
\<close>

definition example_clock :: Clock where
  "example_clock k = 1000 + k"

definition example_clock_same_ms :: Clock where
  "example_clock_same_ms k = 1000"

definition example_clock_set_back :: Clock where
  "example_clock_set_back k = (if k < 2 then 2000 else 1000)"

text \<open>No API key is configured: constructing the client throws.\<close>

definition example_api_no_key :: Api where
  "example_api_no_key =
     \<lparr>aistudio = None,
      createAI = Inl (Thrown ''An API Key must be set when running in a browser''),
      generateContent = (\<lambda>model contents. Pending),
      generateVideos = (\<lambda>prompt. Pending),
      getVideosOperation = [],
      fetch_video = (\<lambda>url. Pending),
      videoRes_blob = Pending,
      createObjectURL = [],
      API_KEY = []\<rparr>"

text \<open>The page asks for a key, and the key dialog fails.\<close>

definition example_api_key_dialog_fails :: Api where
  "example_api_key_dialog_fails =
     \<lparr>aistudio = Some \<lparr>hasSelectedApiKey = Fulfilled False,
                        openSelectKey = Rejected (Thrown ''key selection failed'')\<rparr>,
      createAI = Inr (),
      generateContent = (\<lambda>model contents. Pending),
      generateVideos = (\<lambda>prompt. Fulfilled \<lparr>op_done = True, videoUri = Some ''https://v/1?alt=media''\<rparr>),
      getVideosOperation = [],
      fetch_video = (\<lambda>url. Fulfilled ()),
      videoRes_blob = Fulfilled (),
      createObjectURL = ''blob:1'',
      API_KEY = ''k''\<rparr>"

text \<open>The service answers, with nothing in the answer.\<close>

definition example_api_empty :: Api where
  "example_api_empty =
     \<lparr>aistudio = None,
      createAI = Inr (),
      generateContent =
        (\<lambda>model contents. Fulfilled \<lparr>response_text = None, groundingChunks = None, parts = None\<rparr>),
      generateVideos = (\<lambda>prompt. Fulfilled \<lparr>op_done = True, videoUri = None\<rparr>),
      getVideosOperation = [],
      fetch_video = (\<lambda>url. Pending),
      videoRes_blob = Pending,
      createObjectURL = [],
      API_KEY = ''k''\<rparr>"

text \<open>
  The service answers in full; the video is done at the second poll.
\<close>

definition example_api_ok :: Api where
  "example_api_ok =
     \<lparr>aistudio = Some \<lparr>hasSelectedApiKey = Fulfilled True, openSelectKey = Fulfilled ()\<rparr>,
      createAI = Inr (),
      generateContent =
        (\<lambda>model contents.
           Fulfilled \<lparr>response_text = Some ''Shine Beyond.'',
                      groundingChunks = Some [\<lparr>web = Some \<lparr>uri = ''https://x'', title = ''X''\<rparr>\<rparr>],
                      parts = Some [\<lparr>inlineData = None\<rparr>, \<lparr>inlineData = Some ''AAAA''\<rparr>]\<rparr>),
      generateVideos = (\<lambda>prompt. Fulfilled \<lparr>op_done = False, videoUri = None\<rparr>),
      getVideosOperation =
        [Fulfilled \<lparr>op_done = False, videoUri = None\<rparr>,
         Fulfilled \<lparr>op_done = True, videoUri = Some ''https://v/1?alt=media''\<rparr>],
      fetch_video = (\<lambda>url. Fulfilled ()),
      videoRes_blob = Fulfilled (),
      createObjectURL = ''blob:1'',
      API_KEY = ''k''\<rparr>"

text \<open>The video operation starts, and the first poll fails.\<close>

definition example_api_poll_fails :: Api where
  "example_api_poll_fails =
     \<lparr>aistudio = None,
      createAI = Inr (),
      generateContent = (\<lambda>model contents. Pending),
      generateVideos = (\<lambda>prompt. Fulfilled \<lparr>op_done = False, videoUri = None\<rparr>),
      getVideosOperation = [Rejected (Thrown ''network error'')],
      fetch_video = (\<lambda>url. Pending),
      videoRes_blob = Pending,
      createObjectURL = [],
      API_KEY = ''k''\<rparr>"

text \<open>States of the dashboard: ready to send a prompt in a mode, blank input, and busy.\<close>

definition example_ready :: "GenerationMode \<Rightarrow> string \<Rightarrow> Dashboard" where
  "example_ready m prompt = (initial example_clock)\<lparr>input := prompt, mode := m\<rparr>"



section \<open>The guard\<close>

lemma trim_empty_iff: "trim s = [] \<longleftrightarrow> list_all isWhiteSpace s"
proof -
  have "dropWhile isWhiteSpace (rev (dropWhile isWhiteSpace s)) = [] \<longleftrightarrow> dropWhile isWhiteSpace s = []"
  proof
    assume a: "dropWhile isWhiteSpace (rev (dropWhile isWhiteSpace s)) = []"
    show "dropWhile isWhiteSpace s = []"
    proof (rule ccontr)
      assume n: "dropWhile isWhiteSpace s \<noteq> []"
      then have "\<not> isWhiteSpace (hd (dropWhile isWhiteSpace s))" by (rule hd_dropWhile)
      moreover have "hd (dropWhile isWhiteSpace s) \<in> set (dropWhile isWhiteSpace s)" using n by simp
      ultimately show False using a by (auto simp: dropWhile_eq_Nil_conv)
    qed
  qed (auto dest: set_dropWhileD)
  then show ?thesis by (simp add: trim_def dropWhile_eq_Nil_conv list_all_iff)
qed

lemma refused_iff:
  "refused d \<longleftrightarrow> (list_all isWhiteSpace (input d) \<and> file d = None) \<or> isLoading d"
  by (simp add: refused_def truthy_def trim_empty_iff)



section \<open>What a call appends\<close>

lemma messages_start:
  "messages (snd (handleSubmit_start api clock d)) =
     messages d @ userMsg clock d #
       (if mode d = GenerationMode.VIDEO then [placeholder (clock (tick d + 4))] else [])"
  by (simp add: handleSubmit_start_def Let_def split: GenerationMode.splits)

lemma messages_try:
  "messages (snd (handleSubmit_try k d)) = messages d \<or>
   (\<exists>m. messages (snd (handleSubmit_try k d)) = messages d @ [m]) \<or>
   (\<exists>m. messages (snd (handleSubmit_try k d)) =
      filter (\<lambda>m. msg_id m \<noteq> ''temp-video'') (messages d) @ [m])"
  by (simp add: handleSubmit_try_def setMessages_append_def Let_def
      split: Awaited.splits promise.splits)

lemma messages_resume:
  "\<exists>new. messages (snd (handleSubmit_resume k clock d)) = messages d @ new \<or>
     messages (snd (handleSubmit_resume k clock d)) =
       filter (\<lambda>m. msg_id m \<noteq> ''temp-video'') (messages d) @ new"
  using messages_try [of k d]
  by (auto simp: handleSubmit_resume_def setMessages_append_def split: prod.splits promise.splits)

lemma digit_not_o: "d < 10 \<Longrightarrow> digit d \<noteq> CHR ''o''"
proof
  assume d: "d < 10" and e: "digit d = CHR ''o''"
  have "(of_char (digit d) :: nat) = 48 + d" using d by (simp add: digit_def)
  moreover have "(of_char (CHR ''o'') :: nat) = 111" by simp
  ultimately show False using e d by simp
qed

lemma last_toString: "last (toString n) = digit (n mod 10)"
  by (subst toString.simps) simp

lemma toString_not_placeholder_id: "toString n \<noteq> ''temp-video''"
proof
  assume "toString n = ''temp-video''"
  then have "last (toString n) = CHR ''o''" by simp
  then show False using digit_not_o [of "n mod 10"] by (simp add: last_toString)
qed

lemma start_fields:
  "s_resultMessage (fst (handleSubmit_start api clock d)) = resultMessage clock d"
  "s_input (fst (handleSubmit_start api clock d)) = input d"
  "isLoading (snd (handleSubmit_start api clock d))"
  "tick (snd (handleSubmit_start api clock d)) = tick d + (if mode d = GenerationMode.VIDEO then 5 else 4)"
  by (simp_all add: handleSubmit_start_def Let_def split: GenerationMode.splits)

lemma start_awaited:
  "s_awaited (fst (handleSubmit_start api clock d)) =
     (case mode d of
        COPYWRITING \<Rightarrow> AwaitStrategy (generateStrategy api (input d) (contextString d)
           (case file d of Some f \<Rightarrow> [(mime f, data f)] | None \<Rightarrow> []))
      | GenerationMode.RESEARCH \<Rightarrow> AwaitResearch (conductResearch api (input d))
      | VISUAL \<Rightarrow> AwaitImage (generateProfessionalImage api (input d) (map_option data (file d)))
      | GenerationMode.VIDEO \<Rightarrow> AwaitVideo (generateCinematicVideo api (input d)))"
  by (simp add: handleSubmit_start_def Let_def split: GenerationMode.splits)

lemma try_faulted:
  "faulted (s_awaited k) \<Longrightarrow> \<exists>e. handleSubmit_try k d = (Rejected e, d)"
  by (cases "s_awaited k") (auto simp: handleSubmit_try_def Let_def split: promise.splits)

lemma try_unsettled:
  "fst (handleSubmit_try k d) = Pending \<longleftrightarrow> unsettled (s_awaited k)"
  by (cases "s_awaited k") (auto simp: handleSubmit_try_def Let_def split: promise.splits)

lemma resume_settled:
  "\<not> unsettled (s_awaited k) \<Longrightarrow>
     fst (handleSubmit_resume k clock d) = Fulfilled () \<and>
     \<not> isLoading (snd (handleSubmit_resume k clock d))"
  using try_unsettled [of k d]
  by (auto simp: handleSubmit_resume_def split: prod.splits promise.splits)

lemma resume_faulted:
  "faulted (s_awaited k) \<Longrightarrow>
     handleSubmit_resume k clock d =
       (Fulfilled (), d\<lparr>messages := messages d @ [errorMessage clock (tick d)],
                        tick := tick d + 2, isLoading := False\<rparr>)"
  using try_faulted [of k d]
  by (auto simp: handleSubmit_resume_def setMessages_append_def)

text \<open>
  Claim C1. Take a call of \<open>handleSubmit\<close> that passes the guard; \<open>k\<close> and \<open>d1\<close> are the
  suspended call and the state at its \<open>await\<close>, \<open>r\<close> and \<open>d'\<close> how the call settles and the
  state it leaves. If the awaited service call is rejected, then \<open>handleSubmit\<close> itself
  ends normally (nothing reaches its caller), the transcript at the end is the transcript
  at the \<open>await\<close> (the old transcript, the user message and, in \<open>VIDEO\<close> mode, the
  placeholder) followed by exactly one more message, an \<open>ASSISTANT\<close> message of type
  \<open>TEXT\<close> with the fixed error text, and \<open>isLoading\<close> is false. And whenever the awaited
  call settles at all, fulfilled or rejected, in any mode, \<open>handleSubmit\<close> ends normally
  with \<open>isLoading\<close> false.
\<close>

theorem fault_is_caught:
  assumes "\<not> refused d"
    and "handleSubmit_start api clock d = (k, d1)"
    and "handleSubmit api clock d = (r, d')"
  shows "(faulted (s_awaited k) \<longrightarrow>
            r = Fulfilled () \<and>
            messages d1 = messages d @ userMsg clock d #
              (if mode d = GenerationMode.VIDEO then [placeholder (clock (tick d + 4))] else []) \<and>
            (\<exists>m. messages d' = messages d1 @ [m] \<and> role m = ASSISTANT \<and>
                 type m = ContentType.TEXT \<and>
                 content m = ''An error occurred while processing your request. Please check your API configuration.'') \<and>
            \<not> isLoading d') \<and>
         (\<not> unsettled (s_awaited k) \<longrightarrow> r = Fulfilled () \<and> \<not> isLoading d')"
proof -
  have res: "handleSubmit_resume k clock d1 = (r, d')"
    using assms by (simp add: handleSubmit_def)
  have m1: "messages d1 = messages d @ userMsg clock d #
              (if mode d = GenerationMode.VIDEO then [placeholder (clock (tick d + 4))] else [])"
    using messages_start [of api clock d] assms(2) by simp
  show ?thesis
    using res m1 resume_faulted [of k clock d1] resume_settled [of k clock d1]
    by (auto simp: errorMessage_def)
qed

theorem fault_is_caught_witness:
  "fst (handleSubmit example_api_no_key example_clock
          (example_ready GenerationMode.VIDEO ''drone shot of ocean'')) = Fulfilled () \<and>
   \<not> isLoading (snd (handleSubmit example_api_no_key example_clock
          (example_ready GenerationMode.VIDEO ''drone shot of ocean'')))"
proof -
  let ?d = "example_ready GenerationMode.VIDEO ''drone shot of ocean''"
  let ?start = "handleSubmit_start example_api_no_key example_clock ?d"
  let ?end = "handleSubmit example_api_no_key example_clock ?d"
  have accepted: "\<not> refused ?d"
    by (simp add: refused_iff example_ready_def initial_def isWhiteSpace_def)
  have rejected: "faulted (s_awaited (fst ?start))"
    by (simp add: start_awaited example_ready_def initial_def generateCinematicVideo_def
        ensureApiKey_def example_api_no_key_def)
  show ?thesis
    using fault_is_caught [OF accepted, of example_api_no_key example_clock
        "fst ?start" "snd ?start" "fst ?end" "snd ?end"] rejected
    by simp
qed

text \<open>
  Claim C5. Take a call of \<open>handleSubmit\<close> that passes the guard. In \<open>VISUAL\<close> mode, when
  \<open>generateProfessionalImage\<close> is fulfilled with \<open>null\<close>, the \<open>try\<close> block ends normally (the
  \<open>catch\<close> block is not entered), and the transcript at the end is the old transcript, the
  user message, and the result message with the content "Failed to generate image. Please
  try again."; in \<open>VIDEO\<close> mode, when \<open>generateCinematicVideo\<close> is fulfilled with \<open>null\<close>,
  the same holds with the content "Video generation failed or was cancelled.", the old
  transcript being filtered of the id \<open>temp-video\<close>. The user message and the result
  message are both of type \<open>TEXT\<close>, so no message of type \<open>IMAGE\<close> or \<open>VIDEO\<close> is appended.
\<close>

theorem absent_media_is_not_an_error:
  assumes "\<not> refused d"
    and "handleSubmit_start api clock d = (k, d1)"
  shows "(mode d = VISUAL \<and>
          generateProfessionalImage api (input d) (map_option data (file d)) = Fulfilled None \<longrightarrow>
            fst (handleSubmit_try k d1) = Fulfilled () \<and>
            fst (handleSubmit api clock d) = Fulfilled () \<and>
            messages (snd (handleSubmit api clock d)) =
              messages d @
                [userMsg clock d,
                 (resultMessage clock d)\<lparr>content := ''Failed to generate image. Please try again.''\<rparr>]) \<and>
         (mode d = GenerationMode.VIDEO \<and>
          generateCinematicVideo api (input d) = Fulfilled None \<longrightarrow>
            fst (handleSubmit_try k d1) = Fulfilled () \<and>
            fst (handleSubmit api clock d) = Fulfilled () \<and>
            messages (snd (handleSubmit api clock d)) =
              filter (\<lambda>m. msg_id m \<noteq> ''temp-video'') (messages d) @
                [userMsg clock d,
                 (resultMessage clock d)\<lparr>content := ''Video generation failed or was cancelled.''\<rparr>]) \<and>
         type (userMsg clock d) = ContentType.TEXT \<and>
         type (resultMessage clock d) = ContentType.TEXT \<and>
         role (resultMessage clock d) = ASSISTANT"
proof -
  have k: "s_resultMessage k = resultMessage clock d"
    using start_fields(1) [of api clock d] assms(2) by simp
  have a: "s_awaited k = (case mode d of
        COPYWRITING \<Rightarrow> AwaitStrategy (generateStrategy api (input d) (contextString d)
           (case file d of Some f \<Rightarrow> [(mime f, data f)] | None \<Rightarrow> []))
      | GenerationMode.RESEARCH \<Rightarrow> AwaitResearch (conductResearch api (input d))
      | VISUAL \<Rightarrow> AwaitImage (generateProfessionalImage api (input d) (map_option data (file d)))
      | GenerationMode.VIDEO \<Rightarrow> AwaitVideo (generateCinematicVideo api (input d)))"
    using start_awaited [of api clock d] assms(2) by simp
  have m1: "messages d1 = messages d @ userMsg clock d #
              (if mode d = GenerationMode.VIDEO then [placeholder (clock (tick d + 4))] else [])"
    using messages_start [of api clock d] assms(2) by simp
  have h: "handleSubmit api clock d = handleSubmit_resume k clock d1"
    using assms by (simp add: handleSubmit_def)
  have u: "msg_id (userMsg clock d) \<noteq> ''temp-video''"
    by (simp add: userMsg_def toString_not_placeholder_id)
  show ?thesis
    using k a m1 u
    by (auto simp: h handleSubmit_resume_def handleSubmit_try_def setMessages_append_def
        placeholder_def userMsg_def resultMessage_def)
qed

theorem absent_media_is_not_an_error_witness:
  "content (last (messages (snd (handleSubmit example_api_empty example_clock
       (example_ready VISUAL ''neon skyline''))))) = ''Failed to generate image. Please try again.'' \<and>
   content (last (messages (snd (handleSubmit example_api_empty example_clock
       (example_ready GenerationMode.VIDEO ''drone shot of ocean''))))) =
     ''Video generation failed or was cancelled.''"
proof -
  let ?v = "example_ready VISUAL ''neon skyline''"
  let ?c = "example_ready GenerationMode.VIDEO ''drone shot of ocean''"
  have v: "\<not> refused ?v"
    by (simp add: refused_iff example_ready_def initial_def isWhiteSpace_def)
  have c: "\<not> refused ?c"
    by (simp add: refused_iff example_ready_def initial_def isWhiteSpace_def)
  have image: "mode ?v = VISUAL \<and>
      generateProfessionalImage example_api_empty (input ?v) (map_option data (file ?v)) = Fulfilled None"
    by (simp add: example_ready_def initial_def generateProfessionalImage_def example_api_empty_def)
  have video: "mode ?c = GenerationMode.VIDEO \<and>
      generateCinematicVideo example_api_empty (input ?c) = Fulfilled None"
    by (simp add: example_ready_def initial_def generateCinematicVideo_def ensureApiKey_def
        video_try_def example_api_empty_def)
  show ?thesis
    using absent_media_is_not_an_error [OF v, of example_api_empty example_clock
        "fst (handleSubmit_start example_api_empty example_clock ?v)"
        "snd (handleSubmit_start example_api_empty example_clock ?v)"]
      absent_media_is_not_an_error [OF c, of example_api_empty example_clock
        "fst (handleSubmit_start example_api_empty example_clock ?c)"
        "snd (handleSubmit_start example_api_empty example_clock ?c)"]
      image video
    by simp
qed

section \<open>Runs\<close>

lemma run_Nil: "run clock [] = initial_page clock"
  by (simp add: run_def)

lemma run_snoc: "run clock (events @ [e]) = step clock (run clock events) e"
  by (simp add: run_def)

lemma refused_closure_view: "refused (closure_view c d) = refused c"
  by (simp add: refused_def closure_view_def)

lemma messages_closure_view: "messages (closure_view c d) = messages d"
  by (simp add: closure_view_def)

lemma step_keeps_first:
  assumes "messages (live p) = w # rest" and "msg_id w \<noteq> ''temp-video''"
  shows "\<exists>rest'. messages (live (step clock p e)) = w # rest'"
proof (cases e)
  case (Submit api)
  then show ?thesis
    using assms messages_start [of api clock "closure_view (rendered p) (live p)"]
    by (auto simp: split_beta Let_def messages_closure_view)
next
  case (Settle i)
  show ?thesis
  proof (cases "i < length (suspended p)")
    case False
    then show ?thesis using assms Settle by simp
  next
    case True
    from messages_resume [of "suspended p ! i" clock "live p"] obtain new where
      "messages (snd (handleSubmit_resume (suspended p ! i) clock (live p))) = messages (live p) @ new \<or>
       messages (snd (handleSubmit_resume (suspended p ! i) clock (live p))) =
         filter (\<lambda>m. msg_id m \<noteq> ''temp-video'') (messages (live p)) @ new" by blast
    then show ?thesis using assms Settle True
      by (auto split: prod.splits promise.splits)
  qed
qed (use assms in auto)

lemma run_first:
  "\<exists>rest. messages (live (run clock events)) = INITIAL_MESSAGE clock # rest"
proof (induction events rule: rev_induct)
  case Nil
  then show ?case by (simp add: run_Nil initial_page_def initial_def)
next
  case (snoc e events)
  then obtain rest where "messages (live (run clock events)) = INITIAL_MESSAGE clock # rest" by blast
  moreover have "msg_id (INITIAL_MESSAGE clock) \<noteq> ''temp-video''" by (simp add: INITIAL_MESSAGE_def)
  ultimately show ?case unfolding run_snoc by (rule step_keeps_first)
qed

text \<open>
  Claim C10. Before any event the transcript is the welcome message alone, whose id is
  \<open>welcome\<close>, whose role is \<open>ASSISTANT\<close> and whose type is \<open>TEXT\<close>; after any events the
  transcript is not empty and its first entry is still that message.
\<close>

theorem welcome_stays_first:
  "transcript clock [] = [INITIAL_MESSAGE clock] \<and>
   msg_id (INITIAL_MESSAGE clock) = ''welcome'' \<and>
   role (INITIAL_MESSAGE clock) = ASSISTANT \<and>
   type (INITIAL_MESSAGE clock) = ContentType.TEXT \<and>
   transcript clock events \<noteq> [] \<and>
   hd (transcript clock events) = INITIAL_MESSAGE clock"
  using run_first [of clock events]
  by (auto simp: transcript_def run_Nil initial_page_def initial_def INITIAL_MESSAGE_def)

theorem welcome_stays_first_witness:
  "hd (transcript example_clock
         [SetInput ''drone shot of ocean'', SetMode GenerationMode.VIDEO, Render,
          Submit example_api_ok, Settle 0]) = INITIAL_MESSAGE example_clock"
  using welcome_stays_first
    [of example_clock "[SetInput ''drone shot of ocean'', SetMode GenerationMode.VIDEO, Render,
          Submit example_api_ok, Settle 0]"]
  by blast

section \<open>Metadata and type\<close>

lemma start_metadata_ok:
  "list_all metadata_matches_type (messages d) \<Longrightarrow>
   list_all metadata_matches_type (messages (snd (handleSubmit_start api clock d)))"
  by (simp add: messages_start metadata_matches_type_def has_imageUrl_def has_videoUrl_def
      has_sources_def userMsg_def placeholder_def)

lemma try_metadata_ok:
  assumes "list_all metadata_matches_type (messages d)"
    and "type (s_resultMessage k) = ContentType.TEXT" and "metadata (s_resultMessage k) = None"
  shows "list_all metadata_matches_type (messages (snd (handleSubmit_try k d)))"
proof (cases "s_awaited k")
  case (AwaitStrategy p)
  then show ?thesis using assms
    by (cases p) (simp_all add: handleSubmit_try_def setMessages_append_def Let_def
        metadata_matches_type_def has_imageUrl_def has_videoUrl_def has_sources_def)
next
  case (AwaitResearch p)
  then show ?thesis using assms
    by (cases p) (simp_all add: handleSubmit_try_def setMessages_append_def Let_def
        metadata_matches_type_def has_imageUrl_def has_videoUrl_def has_sources_def)
next
  case (AwaitImage p)
  then show ?thesis using assms
    by (cases p) (simp_all add: handleSubmit_try_def setMessages_append_def Let_def
        metadata_matches_type_def has_imageUrl_def has_videoUrl_def has_sources_def
        split: option.splits)
next
  case (AwaitVideo p)
  have f: "list_all metadata_matches_type (filter (\<lambda>m. msg_id m \<noteq> ''temp-video'') (messages d))"
    using assms(1) by (simp add: list_all_iff)
  show ?thesis using AwaitVideo assms(2,3) f
    by (cases p) (simp_all add: assms(1) handleSubmit_try_def setMessages_append_def Let_def
        metadata_matches_type_def has_imageUrl_def has_videoUrl_def has_sources_def
        split: option.splits)
qed

lemma resume_metadata_ok:
  assumes "list_all metadata_matches_type (messages d)"
    and "type (s_resultMessage k) = ContentType.TEXT" and "metadata (s_resultMessage k) = None"
  shows "list_all metadata_matches_type (messages (snd (handleSubmit_resume k clock d)))"
  using try_metadata_ok [OF assms]
  by (auto simp: handleSubmit_resume_def setMessages_append_def errorMessage_def
      metadata_matches_type_def has_imageUrl_def has_videoUrl_def has_sources_def
      split: prod.splits promise.splits)

lemma step_metadata_ok:
  assumes "page_metadata_ok p"
  shows "page_metadata_ok (step clock p e)"
proof (cases e)
  case (Submit api)
  let ?v = "closure_view (rendered p) (live p)"
  have "list_all metadata_matches_type (messages ?v)"
    using assms by (simp add: page_metadata_ok_def messages_closure_view)
  then have "list_all metadata_matches_type (messages (snd (handleSubmit_start api clock ?v)))"
    by (rule start_metadata_ok)
  then show ?thesis
    using assms Submit start_fields(1) [of api clock ?v]
    by (auto simp: page_metadata_ok_def split_beta Let_def resultMessage_def)
next
  case (Settle i)
  show ?thesis
  proof (cases "i < length (suspended p)")
    case False
    then show ?thesis using assms Settle by simp
  next
    case True
    let ?k = "suspended p ! i"
    have k: "type (s_resultMessage ?k) = ContentType.TEXT \<and> metadata (s_resultMessage ?k) = None"
      using assms True by (simp add: page_metadata_ok_def list_all_length)
    have rest: "list_all (\<lambda>k. type (s_resultMessage k) = ContentType.TEXT \<and> metadata (s_resultMessage k) = None)
       (take i (suspended p) @ drop (Suc i) (suspended p))"
      using assms by (auto simp: page_metadata_ok_def list_all_iff dest: in_set_takeD in_set_dropD)
    have "list_all metadata_matches_type (messages (snd (handleSubmit_resume ?k clock (live p))))"
      using assms k by (intro resume_metadata_ok) (simp_all add: page_metadata_ok_def)
    then show ?thesis
      using assms Settle True rest
      by (auto simp: page_metadata_ok_def split: prod.splits promise.splits)
  qed
qed (use assms in \<open>auto simp: page_metadata_ok_def\<close>)

lemma run_metadata_ok: "page_metadata_ok (run clock events)"
proof (induction events rule: rev_induct)
  case Nil
  then show ?case
    by (simp add: run_Nil page_metadata_ok_def initial_page_def initial_def INITIAL_MESSAGE_def
        metadata_matches_type_def has_imageUrl_def has_videoUrl_def has_sources_def)
next
  case (snoc e events)
  then show ?case unfolding run_snoc by (rule step_metadata_ok)
qed

text \<open>
  Claim C8. In every state a run of the page reaches, every message of the transcript
  satisfies the invariant of the data model: at most one of \<open>imageUrl\<close>, \<open>videoUrl\<close> and
  \<open>sources\<close> is populated, each exactly when the type of the message is \<open>IMAGE\<close>, \<open>VIDEO\<close>
  or \<open>RESEARCH\<close> respectively, and a \<open>TEXT\<close> message has none of the three.
\<close>

theorem metadata_matches_type_always:
  "list_all metadata_matches_type (transcript clock events)"
  using run_metadata_ok [of clock events] by (simp add: page_metadata_ok_def transcript_def)

theorem metadata_matches_type_always_witness:
  "list_all metadata_matches_type (transcript example_clock
      [SetInput ''sustainable packaging trends'', SetMode GenerationMode.RESEARCH, Render,
       Submit example_api_ok, Settle 0]) \<and>
   map type (transcript example_clock
      [SetInput ''sustainable packaging trends'', SetMode GenerationMode.RESEARCH, Render,
       Submit example_api_ok, Settle 0]) =
     [ContentType.TEXT, ContentType.TEXT, ContentType.RESEARCH]"
proof -
  have "map type (transcript example_clock
      [SetInput ''sustainable packaging trends'', SetMode GenerationMode.RESEARCH, Render,
       Submit example_api_ok, Settle 0]) =
     [ContentType.TEXT, ContentType.TEXT, ContentType.RESEARCH]"
    by code_simp
  then show ?thesis
    using metadata_matches_type_always [of example_clock
      "[SetInput ''sustainable packaging trends'', SetMode GenerationMode.RESEARCH, Render,
        Submit example_api_ok, Settle 0]"]
    by simp
qed

section \<open>Timestamps\<close>

lemma start_timestamps_ok:
  assumes "mono clock"
    and "sorted (map timestamp (messages d))"
    and "list_all (\<lambda>m. timestamp m \<le> clock (tick d)) (messages d)"
  shows "sorted (map timestamp (messages (snd (handleSubmit_start api clock d)))) \<and>
         list_all (\<lambda>m. timestamp m \<le> clock (tick (snd (handleSubmit_start api clock d))))
           (messages (snd (handleSubmit_start api clock d))) \<and>
         timestamp (s_resultMessage (fst (handleSubmit_start api clock d)))
           \<le> clock (tick (snd (handleSubmit_start api clock d))) \<and>
         list_all (\<lambda>m. timestamp m \<le> timestamp (s_resultMessage (fst (handleSubmit_start api clock d))) \<or>
                       (awaits_video (s_awaited (fst (handleSubmit_start api clock d))) \<and>
                        msg_id m = ''temp-video''))
           (messages (snd (handleSubmit_start api clock d)))"
proof -
  have old: "\<forall>m\<in>set (messages d). timestamp m \<le> clock (tick d)"
    using assms(3) by (simp add: list_all_iff)
  have c: "\<And>i j. i \<le> j \<Longrightarrow> clock (tick d + i) \<le> clock (tick d + j)"
    using assms(1) by (simp add: monoD)
  have c0: "\<And>j. clock (tick d) \<le> clock (tick d + j)"
    using assms(1) by (simp add: monoD)
  have oldj: "\<And>m j. m \<in> set (messages d) \<Longrightarrow> timestamp m \<le> clock (tick d + j)"
    using old c0 le_trans by blast
  have old1: "\<And>m. m \<in> set (messages d) \<Longrightarrow> timestamp m \<le> clock (Suc (tick d))"
    using oldj [of _ 1] by simp
  show ?thesis
    using assms(2) oldj old1 c [of 1 3] c [of 1 4] c [of 1 5] c [of 3 4] c [of 3 5] c [of 4 5]
    by (auto simp: messages_start start_fields start_awaited sorted_append list_all_iff
        userMsg_def resultMessage_def placeholder_def split: GenerationMode.splits)
qed

lemma resume_timestamps_ok:
  assumes "mono clock"
    and "sorted (map timestamp (messages d))"
    and "list_all (\<lambda>m. timestamp m \<le> clock (tick d)) (messages d)"
    and "timestamp (s_resultMessage k) \<le> clock (tick d)"
    and "list_all (\<lambda>m. timestamp m \<le> timestamp (s_resultMessage k) \<or>
                       (awaits_video (s_awaited k) \<and> msg_id m = ''temp-video'')) (messages d)"
  shows "sorted (map timestamp (messages (snd (handleSubmit_resume k clock d)))) \<and>
         list_all (\<lambda>m. timestamp m \<le> clock (tick (snd (handleSubmit_resume k clock d))))
           (messages (snd (handleSubmit_resume k clock d))) \<and>
         (fst (handleSubmit_resume k clock d) = Pending \<longrightarrow> snd (handleSubmit_resume k clock d) = d)"
proof -
  have old: "\<forall>m\<in>set (messages d). timestamp m \<le> clock (tick d)"
    using assms(3) by (simp add: list_all_iff)
  note srt = assms(2) and res = assms(4)
  have before: "\<forall>m\<in>set (messages d). timestamp m \<le> timestamp (s_resultMessage k) \<or>
                        (awaits_video (s_awaited k) \<and> msg_id m = ''temp-video'')"
    using assms(5) by (simp add: list_all_iff)
  have c1: "clock (tick d) \<le> clock (Suc (tick d))" and c2: "clock (tick d) \<le> clock (tick d + 2)"
    and c12: "clock (Suc (tick d)) \<le> clock (tick d + 2)"
    using assms(1) by (simp_all add: monoD)
  have old1: "\<forall>m\<in>set (messages d). timestamp m \<le> clock (Suc (tick d))"
    using old c1 le_trans by blast
  have old2: "\<forall>m\<in>set (messages d). timestamp m \<le> clock (tick d + 2)"
    using old c2 le_trans by blast
  have fsrt: "sorted (map timestamp (filter (\<lambda>m. msg_id m \<noteq> ''temp-video'') (messages d)))"
    using srt by (rule sorted_filter)
  show ?thesis
  proof (cases "s_awaited k")
    case (AwaitStrategy p)
    then show ?thesis using old srt res before old1 old2 c12
      by (cases p) (auto simp: handleSubmit_resume_def handleSubmit_try_def
          setMessages_append_def errorMessage_def Let_def sorted_append list_all_iff)
  next
    case (AwaitResearch p)
    then show ?thesis using old srt res before old1 old2 c12
      by (cases p) (auto simp: handleSubmit_resume_def handleSubmit_try_def
          setMessages_append_def errorMessage_def Let_def sorted_append list_all_iff)
  next
    case (AwaitImage p)
    then show ?thesis using old srt res before old1 old2 c12
      by (cases p) (auto simp: handleSubmit_resume_def handleSubmit_try_def
          setMessages_append_def errorMessage_def Let_def sorted_append list_all_iff
          split: option.splits)
  next
    case (AwaitVideo p)
    then show ?thesis using old srt res before old1 old2 c12 fsrt
      by (cases p) (auto simp: handleSubmit_resume_def handleSubmit_try_def
          setMessages_append_def errorMessage_def Let_def sorted_append list_all_iff
          split: option.splits)
  qed
qed

lemma step_timestamps_ok:
  assumes "mono clock" and "page_timestamps_ok clock p"
    and "calls_do_not_overlap clock p [e]"
  shows "page_timestamps_ok clock (step clock p e)"
proof (cases e)
  case (Submit api)
  let ?v = "closure_view (rendered p) (live p)"
  show ?thesis
  proof (cases "refused ?v")
    case True
    then show ?thesis using assms(2) Submit by simp
  next
    case False
    then have none: "suspended p = []" using assms(3) Submit by simp
    have "sorted (map timestamp (messages ?v))"
      and "list_all (\<lambda>m. timestamp m \<le> clock (tick ?v)) (messages ?v)"
      using assms(2) by (simp_all add: page_timestamps_ok_def closure_view_def)
    from start_timestamps_ok [OF assms(1) this, of api]
    show ?thesis using False none Submit
      by (simp add: page_timestamps_ok_def split_beta Let_def)
  qed
next
  case (Settle i)
  show ?thesis
  proof (cases "i < length (suspended p)")
    case False
    then show ?thesis using assms(2) Settle by simp
  next
    case True
    then have one: "suspended p = [suspended p ! i]" and i: "i = 0"
      using assms(2) by (cases "suspended p"; simp add: page_timestamps_ok_def)+
    let ?k = "suspended p ! i"
    have "sorted (map timestamp (messages (live p)))"
      and "list_all (\<lambda>m. timestamp m \<le> clock (tick (live p))) (messages (live p))"
      and "timestamp (s_resultMessage ?k) \<le> clock (tick (live p))"
      and "list_all (\<lambda>m. timestamp m \<le> timestamp (s_resultMessage ?k) \<or>
                       (awaits_video (s_awaited ?k) \<and> msg_id m = ''temp-video'')) (messages (live p))"
      using assms(2) True by (simp_all add: page_timestamps_ok_def list_all_length)
    from resume_timestamps_ok [OF assms(1) this]
    show ?thesis using assms(2) Settle True one i
      by (auto simp: page_timestamps_ok_def split: prod.splits promise.splits)
  qed
qed (use assms(2) in \<open>auto simp: page_timestamps_ok_def\<close>)

lemma steps_timestamps_ok:
  "mono clock \<Longrightarrow> page_timestamps_ok clock p \<Longrightarrow> calls_do_not_overlap clock p events \<Longrightarrow>
     page_timestamps_ok clock (foldl (step clock) p events)"
proof (induction events arbitrary: p)
  case Nil
  then show ?case by simp
next
  case (Cons e events)
  have "page_timestamps_ok clock (step clock p e)"
    using Cons.prems by (intro step_timestamps_ok) simp_all
  then show ?case using Cons by simp
qed

lemma calls_do_not_overlap_prefix:
  "calls_do_not_overlap clock p (events @ later) \<Longrightarrow> calls_do_not_overlap clock p events"
  by (induction events arbitrary: p) simp_all

lemma initial_timestamps_ok: "mono clock \<Longrightarrow> page_timestamps_ok clock (initial_page clock)"
  by (simp add: page_timestamps_ok_def initial_page_def initial_def INITIAL_MESSAGE_def monoD)

text \<open>
  Claim C7, as the code has it. When the readings of the clock never decrease and the
  calls of \<open>handleSubmit\<close> do not overlap (none passes its guard while another is still
  suspended), the timestamps of the transcript are in non-decreasing order in every state
  the run goes through: the result message is stamped before the \<open>await\<close>, and what is
  appended between its stamping and its own appending is the placeholder alone, which is
  removed first.
\<close>

theorem timestamps_ordered_without_overlap:
  "mono clock \<Longrightarrow> calls_do_not_overlap clock (initial_page clock) (events @ later) \<Longrightarrow>
     sorted (map timestamp (transcript clock events))"
proof -
  assume clock: "mono clock"
    and serial: "calls_do_not_overlap clock (initial_page clock) (events @ later)"
  have "calls_do_not_overlap clock (initial_page clock) events"
    using serial by (rule calls_do_not_overlap_prefix)
  with clock initial_timestamps_ok [OF clock]
  have "page_timestamps_ok clock (foldl (step clock) (initial_page clock) events)"
    by (rule steps_timestamps_ok)
  then show ?thesis
    by (simp add: page_timestamps_ok_def transcript_def run_def)
qed

theorem timestamps_ordered_without_overlap_witness:
  "sorted (map timestamp (transcript example_clock
      [SetInput ''drone shot of ocean'', SetMode GenerationMode.VIDEO, Render,
       Submit example_api_ok]))"
proof -
  have clock: "mono example_clock"
    by (simp add: mono_def example_clock_def)
  have serial: "calls_do_not_overlap example_clock (initial_page example_clock)
      ([SetInput ''drone shot of ocean'', SetMode GenerationMode.VIDEO, Render,
        Submit example_api_ok] @
       [Settle 0, SetInput ''neon skyline'', SetMode VISUAL, Render, Submit example_api_ok, Settle 0])"
    by code_simp
  show ?thesis
    using timestamps_ordered_without_overlap [OF clock serial] .
qed

text \<open>
  Claim C7, as stated, fails when the clock is set back: the welcome message is stamped
  2000, and the user message of the first call, read from the clock after it was set back,
  is stamped 1000.
\<close>

theorem timestamps_unordered_when_clock_set_back:
  "\<not> sorted (map timestamp (transcript example_clock_set_back
        [SetInput ''Write a tagline for LuxNova'', Render, Submit example_api_ok, Settle 0]))"
  by code_simp

text \<open>
  It fails as well, with a clock that advances, when two calls overlap: the second call is
  made from the same render as the first, so its guard still reads \<open>isLoading\<close> as false;
  its user message, stamped 1006, is appended before the result message of the first call,
  stamped 1004 before that call was suspended.
\<close>

lemma timestamps_unordered_when_calls_overlap:
  "map timestamp (transcript example_clock
      [SetInput ''Write a tagline for LuxNova'', Render, Submit example_api_ok,
       Submit example_api_ok, Settle 0, Settle 0]) = [1000, 1002, 1006, 1004, 1008]"
  by code_simp

section \<open>The video service\<close>

text \<open>
  The poll loop ends when every poll is answered and one of the answers reports the
  operation done or fails.
\<close>

lemma poll_settles:
  "list_all (\<lambda>a. \<not> is_Pending a) answers \<Longrightarrow>
   list_ex (\<lambda>a. case a of Fulfilled operation' \<Rightarrow> op_done operation' | Rejected e \<Rightarrow> True | Pending \<Rightarrow> False) answers \<Longrightarrow>
   \<not> is_Pending (poll operation answers)"
proof (induction answers arbitrary: operation)
  case Nil
  then show ?case by simp
next
  case (Cons a answers)
  show ?case
  proof (cases a)
    case (Fulfilled operation')
    show ?thesis
    proof (cases "op_done operation'")
      case True
      then show ?thesis using Fulfilled by (cases answers) simp_all
    next
      case False
      then show ?thesis using Cons Fulfilled by simp
    qed
  next
    case (Rejected e)
    then show ?thesis by simp
  next
    case Pending
    then show ?thesis using Cons.prems by simp
  qed
qed

text \<open>
  Claim C9, as the code has it. Once \<open>ensureApiKey\<close> and \<open>createAI\<close> have completed
  normally, \<open>generateCinematicVideo\<close> is never rejected: whatever the \<open>try\<close> block throws
  becomes \<open>null\<close>, be it at the start of the operation, in the poll loop, or in the download
  of the video (the request or the reading of its body); and the call settles whenever the
  \<open>try\<close> block does.
\<close>

theorem video_errors_in_try_become_null:
  assumes "ensureApiKey api = Fulfilled ()" and "createAI api = Inr ()"
  shows "\<not> is_Rejected (generateCinematicVideo api prompt) \<and>
         (is_Rejected (video_try api prompt) \<longrightarrow>
            generateCinematicVideo api prompt = Fulfilled None) \<and>
         (\<not> is_Pending (video_try api prompt) \<longrightarrow>
            \<not> is_Pending (generateCinematicVideo api prompt)) \<and>
         (is_Rejected (generateVideos api
              (''Cinematic shot, movie quality, high production value. '' @ prompt)) \<longrightarrow>
            generateCinematicVideo api prompt = Fulfilled None) \<and>
         (generateVideos api (''Cinematic shot, movie quality, high production value. '' @ prompt)
              = Fulfilled operation0 \<and>
          is_Rejected (poll operation0 (getVideosOperation api)) \<longrightarrow>
            generateCinematicVideo api prompt = Fulfilled None) \<and>
         (generateVideos api (''Cinematic shot, movie quality, high production value. '' @ prompt)
              = Fulfilled operation0 \<and>
          poll operation0 (getVideosOperation api) = Fulfilled operation \<and>
          videoUri operation = Some u \<and> truthy u \<and>
          (is_Rejected (fetch_video api (u @ ''&key='' @ API_KEY api)) \<or>
           fetch_video api (u @ ''&key='' @ API_KEY api) = Fulfilled () \<and>
           is_Rejected (videoRes_blob api)) \<longrightarrow>
            generateCinematicVideo api prompt = Fulfilled None)"
  using assms
  by (auto simp: generateCinematicVideo_def video_try_def split: promise.splits option.splits)

theorem video_errors_in_try_become_null_witness:
  "generateCinematicVideo example_api_poll_fails ''drone shot of ocean'' = Fulfilled None"
proof -
  have key: "ensureApiKey example_api_poll_fails = Fulfilled ()"
    by (simp add: ensureApiKey_def example_api_poll_fails_def)
  have ai: "createAI example_api_poll_fails = Inr ()"
    by (simp add: example_api_poll_fails_def)
  have thrown: "is_Rejected (video_try example_api_poll_fails ''drone shot of ocean'')"
    by (simp add: video_try_def example_api_poll_fails_def)
  show ?thesis
    using video_errors_in_try_become_null [OF key ai, of "''drone shot of ocean''"] thrown
    by blast
qed

text \<open>
  Claim C9, as stated, fails: \<open>ensureApiKey\<close> runs before the \<open>try\<close> block, and when the key
  dialog fails the call is rejected.
\<close>

theorem video_call_rejects_when_key_selection_fails:
  "generateCinematicVideo example_api_key_dialog_fails ''drone shot of ocean'' =
     Rejected (Thrown ''key selection failed'')"
  by (simp add: generateCinematicVideo_def ensureApiKey_def example_api_key_dialog_fails_def)

section \<open>A video call that is rejected\<close>

text \<open>
  In \<open>VIDEO\<close> mode the placeholder, with the id \<open>temp-video\<close> and \<open>thinking\<close> set, is the
  last message of the transcript when the call is made; when the call is fulfilled, with
  a video or with \<open>null\<close>, no message of the transcript has the id \<open>temp-video\<close> any more.
  And a call that starts from a transcript without such a message appends the user message
  and one \<open>ASSISTANT\<close> message and leaves nothing else, whenever the awaited service call
  settles, unless that call is the video call and it is rejected.
\<close>

lemma placeholder_shown_at_await:
  "mode d = GenerationMode.VIDEO \<Longrightarrow>
     last (messages (snd (handleSubmit_start api clock d))) = placeholder (clock (tick d + 4)) \<and>
     msg_id (placeholder (clock (tick d + 4))) = ''temp-video'' \<and>
     map_option thinking (metadata (placeholder (clock (tick d + 4)))) = Some (Some True) \<and>
     invoked (snd (handleSubmit_start api clock d)) = invoked d @ [GenerateCinematicVideo (input d)]"
  by (simp add: messages_start placeholder_def handleSubmit_start_def Let_def)

lemma placeholder_removed_when_fulfilled:
  assumes "\<not> refused d" and "mode d = GenerationMode.VIDEO"
    and "generateCinematicVideo api (input d) = Fulfilled v"
  shows "list_all (\<lambda>m. msg_id m \<noteq> ''temp-video'') (messages (snd (handleSubmit api clock d)))"
  using assms
  by (auto simp: handleSubmit_def split_beta handleSubmit_resume_def handleSubmit_try_def
      start_awaited start_fields messages_start setMessages_append_def Let_def list_all_iff
      resultMessage_def userMsg_def toString_not_placeholder_id split: option.splits)

lemma call_appends_two_messages:
  assumes "\<not> refused d"
    and "list_all (\<lambda>m. msg_id m \<noteq> ''temp-video'') (messages d)"
    and "\<not> unsettled (s_awaited (fst (handleSubmit_start api clock d)))"
    and "\<not> (mode d = GenerationMode.VIDEO \<and> faulted (s_awaited (fst (handleSubmit_start api clock d))))"
  shows "\<exists>a. messages (snd (handleSubmit api clock d)) = messages d @ [userMsg clock d, a] \<and>
             role (userMsg clock d) = USER \<and> role a = ASSISTANT \<and> msg_id a \<noteq> ''temp-video''"
proof -
  have f: "filter (\<lambda>m. msg_id m \<noteq> ''temp-video'') (messages d) = messages d"
    using assms(2) by (simp add: list_all_iff)
  show ?thesis
  proof (cases "mode d")
    case COPYWRITING
    then show ?thesis using assms(1,3)
      by (auto simp: handleSubmit_def split_beta handleSubmit_resume_def handleSubmit_try_def
          start_awaited start_fields messages_start setMessages_append_def Let_def
          resultMessage_def userMsg_def errorMessage_def toString_not_placeholder_id
          split: promise.splits)
  next
    case RESEARCH
    then show ?thesis using assms(1,3)
      by (auto simp: handleSubmit_def split_beta handleSubmit_resume_def handleSubmit_try_def
          start_awaited start_fields messages_start setMessages_append_def Let_def
          resultMessage_def userMsg_def errorMessage_def toString_not_placeholder_id
          split: promise.splits)
  next
    case VISUAL
    then show ?thesis using assms(1,3)
      by (auto simp: handleSubmit_def split_beta handleSubmit_resume_def handleSubmit_try_def
          start_awaited start_fields messages_start setMessages_append_def Let_def
          resultMessage_def userMsg_def errorMessage_def toString_not_placeholder_id
          split: promise.splits option.splits)
  next
    case VIDEO
    then show ?thesis using assms(1,3,4) f
      by (auto simp: handleSubmit_def split_beta handleSubmit_resume_def handleSubmit_try_def
          start_awaited start_fields messages_start setMessages_append_def Let_def
          resultMessage_def userMsg_def placeholder_def toString_not_placeholder_id
          split: promise.splits option.splits)
  qed
qed

text \<open>
  Claim C2 at a failing input. No API key is configured, the mode is \<open>VIDEO\<close>: the
  service call is rejected, and the call of \<open>handleSubmit\<close> leaves three messages after the
  welcome message, the user message, the placeholder and the error message.
\<close>

theorem video_fault_transcript:
  "map (\<lambda>m. (role m, msg_id m))
     (messages (snd (handleSubmit example_api_no_key example_clock
        (example_ready GenerationMode.VIDEO ''drone shot of ocean'')))) =
   [(ASSISTANT, ''welcome''), (USER, ''1001''), (ASSISTANT, ''temp-video''), (ASSISTANT, ''1006'')]"
  by code_simp

text \<open>
  Claim C4 at a failing input. The key dialog fails, so \<open>generateCinematicVideo\<close> is
  rejected after the placeholder was appended; when the call has settled and nothing is
  suspended any more, the transcript has four messages, the third is the placeholder, and
  the last is the error message.
\<close>

theorem placeholder_orphaned_by_video_fault:
  "transcript example_clock
     [SetInput ''drone shot of ocean'', SetMode GenerationMode.VIDEO, Render,
      Submit example_api_key_dialog_fails, Settle 0] ! 2 = placeholder 1005 \<and>
   length (transcript example_clock
     [SetInput ''drone shot of ocean'', SetMode GenerationMode.VIDEO, Render,
      Submit example_api_key_dialog_fails, Settle 0]) = 4 \<and>
   suspended (run example_clock
     [SetInput ''drone shot of ocean'', SetMode GenerationMode.VIDEO, Render,
      Submit example_api_key_dialog_fails, Settle 0]) = [] \<and>
   content (last (transcript example_clock
     [SetInput ''drone shot of ocean'', SetMode GenerationMode.VIDEO, Render,
      Submit example_api_key_dialog_fails, Settle 0])) =
     ''An error occurred while processing your request. Please check your API configuration.''"
  by code_simp

section \<open>Identifiers\<close>

text \<open>
  Claim C6 at a failing input. No API key is configured and the call is rejected within the
  millisecond in which it started: the user message and the error message have the same
  id.
\<close>

theorem ids_collide_within_one_millisecond:
  "map msg_id (transcript example_clock_same_ms
      [SetInput ''Write a tagline for LuxNova'', Render, Submit example_api_no_key, Settle 0]) =
     [''welcome'', ''1000'', ''1000''] \<and>
   \<not> distinct (map msg_id (transcript example_clock_same_ms
      [SetInput ''Write a tagline for LuxNova'', Render, Submit example_api_no_key, Settle 0]))"
  by code_simp

end
